theory Spec2Isabelle
  imports Complex_Main
begin

section \<open>Python values, exceptions and effects\<close>

text \<open>
  The repository is a thin Python facade (\<^verbatim>\<open>stock_agent_system.py\<close>) over a
  configuration class (\<^verbatim>\<open>config.py\<close>).  Result objects are Python dictionaries with
  string keys; they are modelled as maps from strings to a small universe of Python
  values.  Exceptions are values: a call that may raise has a result of type
  \<open>pyexn + 'a\<close>, with \<open>Inl\<close> the exception raised.  An exception carries the text
  \<^verbatim>\<open>str(e)\<close> yields; some exceptions are instances of \<^verbatim>\<open>Exception\<close>, the
  class the source's \<^verbatim>\<open>except Exception\<close> clauses match, and some are not.
\<close>

datatype pyfloat = Finite rat | PosInf | NegInf | NaN

datatype pyval = PNone | PBool bool | PInt int | PFloat pyfloat | PStr string

type_synonym pydict = "string \<rightharpoonup> pyval"

datatype pyexn =
    ValueError string
  | AttributeError string
  | Exception string string  \<comment> \<open>any other subclass of Exception: class name, message\<close>
  | KeyboardInterrupt
  | SystemExit string
  | CancelledError string

fun str_exn :: "pyexn \<Rightarrow> string" where
  "str_exn (ValueError m) = m"
| "str_exn (AttributeError m) = m"
| "str_exn (Exception c m) = m"
| "str_exn KeyboardInterrupt = []"
| "str_exn (SystemExit m) = m"
| "str_exn (CancelledError m) = m"

text \<open>
  \<^verbatim>\<open>isinstance(e, Exception)\<close>: what an \<^verbatim>\<open>except Exception\<close> clause catches.
  \<^verbatim>\<open>KeyboardInterrupt\<close>, \<^verbatim>\<open>SystemExit\<close> and \<^verbatim>\<open>asyncio.CancelledError\<close> derive
  from \<^verbatim>\<open>BaseException\<close> only and pass through such a clause.
\<close>

fun is_Exception :: "pyexn \<Rightarrow> bool" where
  "is_Exception (ValueError m) = True"
| "is_Exception (AttributeError m) = True"
| "is_Exception (Exception c m) = True"
| "is_Exception KeyboardInterrupt = False"
| "is_Exception (SystemExit m) = False"
| "is_Exception (CancelledError m) = False"

text \<open>What a run leaves behind besides its value: lines printed, external calls made.\<close>

datatype effect = Print string | Call string

text \<open>Python truthiness of an optional string (\<^verbatim>\<open>None\<close> and \<^verbatim>\<open>""\<close> are falsy).\<close>

fun truthy_str :: "string option \<Rightarrow> bool" where
  "truthy_str None = False"
| "truthy_str (Some s) = (s \<noteq> [])"

text \<open>Truthiness of a value, and \<^verbatim>\<open>d.get(k)\<close>, as the callers in \<^verbatim>\<open>main.py\<close> use them.\<close>

fun truthy :: "pyval \<Rightarrow> bool" where
  "truthy PNone = False"
| "truthy (PBool b) = b"
| "truthy (PInt i) = (i \<noteq> 0)"
| "truthy (PFloat f) = (f \<noteq> Finite 0)"
| "truthy (PStr s) = (s \<noteq> [])"

definition dict_get :: "pydict \<Rightarrow> string \<Rightarrow> pyval" where
  "dict_get d k = (case d k of None \<Rightarrow> PNone | Some v \<Rightarrow> v)"

section \<open>Reading numbers and flags from text\<close>

text \<open>
  \<^verbatim>\<open>config.py\<close> converts environment strings with the builtins \<^verbatim>\<open>float\<close>,
  \<^verbatim>\<open>int\<close> and \<^verbatim>\<open>str.lower\<close>.  They are modelled on ASCII text following the
  grammar of the language reference: surrounding whitespace is stripped, a sign is
  optional, digits may be grouped by single underscores, a float may have a fraction and
  an exponent or be \<^verbatim>\<open>inf\<close>, \<^verbatim>\<open>infinity\<close> or \<^verbatim>\<open>nan\<close> in any letter case.
  On ASCII text the whitespace stripped is the tab, the line feed, the vertical tab, the
  form feed, the carriage return and the space.
  A finite float is represented by the exact decimal value its text denotes, where
  Python keeps the nearest binary64 number; a value that rounds beyond the largest
  binary64 number becomes an infinity and one that rounds below the smallest becomes
  zero, whose sign is not kept.  A failed conversion raises \<^verbatim>\<open>ValueError\<close>; the
  model keeps the offending text as its message.
\<close>

definition is_digit :: "char \<Rightarrow> bool" where
  "is_digit c \<longleftrightarrow> (48::nat) \<le> of_char c \<and> (of_char c::nat) \<le> 57"

definition digit_value :: "char \<Rightarrow> nat" where
  "digit_value c = of_char c - 48"

definition is_space :: "char \<Rightarrow> bool" where
  "is_space c \<longleftrightarrow> (of_char c::nat) \<in> {9, 10, 11, 12, 13, 32}"

definition strip :: "string \<Rightarrow> string" where
  "strip s = rev (dropWhile is_space (rev (dropWhile is_space s)))"

definition lower_char :: "char \<Rightarrow> char" where
  "lower_char c =
     (if (65::nat) \<le> of_char c \<and> (of_char c::nat) \<le> 90
      then char_of (of_char c + (32::nat)) else c)"

definition lower :: "string \<Rightarrow> string" where
  "lower s = map lower_char s"

text \<open>After a first digit: the rest of a digit group, \<^verbatim>\<open>(["_"] digit)*\<close>.\<close>

fun digitpart_rest :: "string \<Rightarrow> string \<times> string" where
  "digitpart_rest [] = ([], [])"
| "digitpart_rest [c] = (if is_digit c then ([c], []) else ([], [c]))"
| "digitpart_rest (c # d # cs) =
     (if is_digit c then
        (case digitpart_rest (d # cs) of (ds, r) \<Rightarrow> (c # ds, r))
      else if c = CHR ''_'' \<and> is_digit d then
        (case digitpart_rest cs of (ds, r) \<Rightarrow> (d # ds, r))
      else ([], c # d # cs))"

definition digitpart :: "string \<Rightarrow> (string \<times> string) option" where
  "digitpart s =
     (case s of
        [] \<Rightarrow> None
      | c # cs \<Rightarrow>
          if is_digit c then
            (case digitpart_rest cs of (ds, r) \<Rightarrow> Some (c # ds, r))
          else None)"

definition digits_value :: "string \<Rightarrow> nat" where
  "digits_value ds = foldl (\<lambda>a c. 10 * a + digit_value c) 0 ds"

definition take_sign :: "string \<Rightarrow> bool \<times> string" where
  "take_sign s =
     (case s of
        [] \<Rightarrow> (False, [])
      | c # cs \<Rightarrow>
          if c = CHR ''-'' then (True, cs)
          else if c = CHR ''+'' then (False, cs)
          else (False, c # cs))"

definition py_int :: "string \<Rightarrow> pyexn + int" where
  "py_int s =
     (case take_sign (strip s) of (neg, u) \<Rightarrow>
        (case digitpart u of
           Some (ds, []) \<Rightarrow>
             Inr (if neg then - int (digits_value ds) else int (digits_value ds))
         | _ \<Rightarrow> Inl (ValueError s)))"

text \<open>\<^verbatim>\<open>number ::= [digitpart] "." digitpart | digitpart ["."]\<close>, as a scaled integer:
  the digits read and how many of them stand after the point.\<close>

definition number :: "string \<Rightarrow> ((string \<times> string) \<times> string) option" where
  "number s =
     (case digitpart s of
        Some (ip, r) \<Rightarrow>
          (case r of
             [] \<Rightarrow> Some ((ip, []), [])
           | c # r' \<Rightarrow>
               if c = CHR ''.'' then
                 (case digitpart r' of
                    Some (fp, r'') \<Rightarrow> Some ((ip, fp), r'')
                  | None \<Rightarrow> Some ((ip, []), r'))
               else Some ((ip, []), c # r'))
      | None \<Rightarrow>
          (case s of
             [] \<Rightarrow> None
           | c # r' \<Rightarrow>
               if c = CHR ''.'' then
                 (case digitpart r' of
                    Some (fp, r'') \<Rightarrow> Some (([], fp), r'')
                  | None \<Rightarrow> None)
               else None))"

text \<open>\<^verbatim>\<open>exponent ::= ("e" | "E") [sign] digitpart\<close>; absent when the text ends.\<close>

definition exponent :: "string \<Rightarrow> int option" where
  "exponent s =
     (case s of
        [] \<Rightarrow> Some 0
      | c # cs \<Rightarrow>
          if c = CHR ''e'' \<or> c = CHR ''E'' then
            (case take_sign cs of (neg, u) \<Rightarrow>
               (case digitpart u of
                  Some (ds, []) \<Rightarrow>
                    Some (if neg then - int (digits_value ds) else int (digits_value ds))
                | _ \<Rightarrow> None))
          else None)"

definition scale10 :: "rat \<Rightarrow> int \<Rightarrow> rat" where
  "scale10 r e = (if 0 \<le> e then r * 10 ^ nat e else r / 10 ^ nat (- e))"

definition decimal_value :: "string \<Rightarrow> string \<Rightarrow> int \<Rightarrow> rat" where
  "decimal_value ip fp e =
     scale10 (of_nat (digits_value (ip @ fp))) (e - int (length fp))"

text \<open>
  Rounding to nearest, ties to even, at the two ends of the binary64 range: from
  \<open>2 ^ 1024 - 2 ^ 970\<close> on, the midpoint above the largest finite number, the result is
  an infinity; up to \<open>1 / 2 ^ 1075\<close>, half the smallest positive number, it is zero.
\<close>

definition binary64_range :: "rat \<Rightarrow> pyfloat" where
  "binary64_range r =
     (if 2 ^ 1024 - 2 ^ 970 \<le> r then PosInf
      else if r \<le> - (2 ^ 1024 - 2 ^ 970) then NegInf
      else if \<bar>r\<bar> \<le> 1 / 2 ^ 1075 then Finite 0
      else Finite r)"

definition py_float :: "string \<Rightarrow> pyexn + pyfloat" where
  "py_float s =
     (case take_sign (strip s) of (neg, u) \<Rightarrow>
        if lower u = ''inf'' \<or> lower u = ''infinity'' then
          Inr (if neg then NegInf else PosInf)
        else if lower u = ''nan'' then Inr NaN
        else
          (case number u of
             None \<Rightarrow> Inl (ValueError s)
           | Some ((ip, fp), r) \<Rightarrow>
               (case exponent r of
                  None \<Rightarrow> Inl (ValueError s)
                | Some e \<Rightarrow>
                    Inr (binary64_range (if neg then - decimal_value ip fp e
                                         else decimal_value ip fp e)))))"

section \<open>config.py\<close>

text \<open>
  The class body of \<^verbatim>\<open>Config\<close> runs once, when the module is imported, and reads the
  process environment (a map from names to strings) into class attributes.
\<close>

record Config =
  OPENAI_API_KEY :: "string option"
  OPENAI_MODEL :: string
  ALPHA_VANTAGE_API_KEY :: "string option"
  FINNHUB_API_KEY :: "string option"
  MASTER_AGENT_TEMPERATURE :: pyfloat
  JUNIOR_AGENT_TEMPERATURE :: pyfloat
  ORCHESTRATOR_AGENT_TEMPERATURE :: pyfloat
  MAX_ITERATIONS :: int
  VERBOSE :: bool

definition getenv :: "(string \<rightharpoonup> string) \<Rightarrow> string \<Rightarrow> string option" where
  "getenv env name = env name"

definition getenv_default :: "(string \<rightharpoonup> string) \<Rightarrow> string \<Rightarrow> string \<Rightarrow> string" where
  "getenv_default env name dflt = (case env name of None \<Rightarrow> dflt | Some v \<Rightarrow> v)"

definition Config_class :: "(string \<rightharpoonup> string) \<Rightarrow> pyexn + Config" where
  "Config_class env =
     (case py_float (getenv_default env ''MASTER_AGENT_TEMPERATURE'' ''0.7'') of
        Inl e \<Rightarrow> Inl e
      | Inr tm \<Rightarrow>
     (case py_float (getenv_default env ''JUNIOR_AGENT_TEMPERATURE'' ''0.5'') of
        Inl e \<Rightarrow> Inl e
      | Inr tj \<Rightarrow>
     (case py_float (getenv_default env ''ORCHESTRATOR_AGENT_TEMPERATURE'' ''0.3'') of
        Inl e \<Rightarrow> Inl e
      | Inr to \<Rightarrow>
     (case py_int (getenv_default env ''MAX_ITERATIONS'' ''10'') of
        Inl e \<Rightarrow> Inl e
      | Inr n \<Rightarrow>
          Inr \<lparr> OPENAI_API_KEY = getenv env ''OPENAI_API_KEY'',
                OPENAI_MODEL = getenv_default env ''OPENAI_MODEL'' ''gpt-4'',
                ALPHA_VANTAGE_API_KEY = getenv env ''ALPHA_VANTAGE_API_KEY'',
                FINNHUB_API_KEY = getenv env ''FINNHUB_API_KEY'',
                MASTER_AGENT_TEMPERATURE = tm,
                JUNIOR_AGENT_TEMPERATURE = tj,
                ORCHESTRATOR_AGENT_TEMPERATURE = to,
                MAX_ITERATIONS = n,
                VERBOSE = (lower (getenv_default env ''VERBOSE'' ''True'') = ''true'') \<rparr>))))"

text \<open>
  A configuration object.  \<^verbatim>\<open>validate_config\<close> and \<^verbatim>\<open>get_stock_api_key\<close>
  are class methods: called through an object they receive the object's class and read
  the attributes of the class.  An attribute read through the object itself, as in
  \<^verbatim>\<open>self.config.OPENAI_MODEL\<close>, is looked up in the object first, so an object
  that carries attributes of its own shows values different from those of its class.
  Both views are kept.  \<^verbatim>\<open>Config()\<close> makes an object with no attribute of its own.
\<close>

record Config_object =
  class_attrs :: Config
  instance_attrs :: Config

definition new_Config :: "Config \<Rightarrow> Config_object" where
  "new_Config cls = \<lparr> class_attrs = cls, instance_attrs = cls \<rparr>"

text \<open>
  \<^verbatim>\<open>validate_config\<close> raises when the language-model key of the class is falsy and
  otherwise returns, having printed a warning when neither stock-data key is truthy.
  The value returned is the list of lines printed.
\<close>

definition validate_config :: "Config \<Rightarrow> pyexn + effect list" where
  "validate_config cls =
     (if \<not> truthy_str (OPENAI_API_KEY cls) then
        Inl (ValueError ''OPENAI_API_KEY is required. Please set it in your .env file'')
      else if \<not> truthy_str (ALPHA_VANTAGE_API_KEY cls) \<and> \<not> truthy_str (FINNHUB_API_KEY cls) then
        Inr [Print ''Warning: No stock API key found. Using yfinance as fallback.'']
      else Inr [])"

text \<open>\<^verbatim>\<open>a or b\<close>: the first operand when it is truthy, the second otherwise.\<close>

definition get_stock_api_key :: "Config \<Rightarrow> string option" where
  "get_stock_api_key cls =
     (if truthy_str (ALPHA_VANTAGE_API_KEY cls) then ALPHA_VANTAGE_API_KEY cls
      else FINNHUB_API_KEY cls)"

section \<open>stock_agent_system.py\<close>

text \<open>
  The modules \<^verbatim>\<open>tools\<close> and \<^verbatim>\<open>agents\<close> are external collaborators of the
  facade: language-model agents and stock-data tools.  What the facade calls of them is a
  parameter of the model, and each of these calls may return or raise.
  \<^verbatim>\<open>setup_agents\<close> changes the orchestrator in place; here it returns the
  orchestrator as changed.
\<close>

record tool =
  tool_name :: string
  tool_description :: string

record 'a agents_api =
  get_stock_tools :: "string option \<Rightarrow> pyexn + tool list"
  OrchestratorAgent :: "string \<Rightarrow> pyfloat \<Rightarrow> tool list \<Rightarrow> bool \<Rightarrow> pyexn + 'a"
  JuniorAgent :: "string \<Rightarrow> pyfloat \<Rightarrow> tool list \<Rightarrow> bool \<Rightarrow> pyexn + 'a"
  MasterAgent :: "string \<Rightarrow> pyfloat \<Rightarrow> tool list \<Rightarrow> bool \<Rightarrow> pyexn + 'a"
  setup_agents :: "'a \<Rightarrow> tool list \<Rightarrow> tool list \<Rightarrow> pyexn + 'a"
  orchestrate_analysis :: "'a \<Rightarrow> string \<Rightarrow> pyexn + pydict"

text \<open>One entry of the session history: the dictionary with keys
  \<^verbatim>\<open>query\<close>, \<^verbatim>\<open>result\<close> and \<^verbatim>\<open>timestamp\<close>.\<close>

record history_entry =
  query :: string
  result :: pydict
  timestamp :: pyfloat

record 'a StockAgentSystem =
  config :: Config_object
  stock_tools :: "tool list"
  orchestrator :: "'a option"
  junior_agent :: "'a option"
  master_agent :: "'a option"
  is_initialized :: bool
  session_history :: "history_entry list"

text \<open>The two marks the source prints, as their UTF-8 bytes.\<close>

definition check_mark :: string where
  "check_mark = [CHR 0xE2, CHR 0x9C, CHR 0x85]"

definition cross_mark :: string where
  "cross_mark = [CHR 0xE2, CHR 0x9D, CHR 0x8C]"

definition init_failed :: "pyexn \<Rightarrow> effect" where
  "init_failed e = Print (cross_mark @ '' Error initializing system: '' @ str_exn e)"

text \<open>
  The \<^verbatim>\<open>except Exception\<close> clause of \<^verbatim>\<open>_initialize_system\<close>, entered with the
  effects so far and the object as the statements before the raise left it: an instance
  of \<^verbatim>\<open>Exception\<close> is printed and \<^verbatim>\<open>is_initialized\<close> set to false; any other
  exception leaves the method.
\<close>

definition init_except ::
  "effect list \<Rightarrow> 'a StockAgentSystem \<Rightarrow> pyexn
     \<Rightarrow> effect list \<times> (pyexn + 'a StockAgentSystem)" where
  "init_except effs s e =
     (if is_Exception e then (effs @ [init_failed e], Inr (s\<lparr>is_initialized := False\<rparr>))
      else (effs, Inl e))"

text \<open>
  \<^verbatim>\<open>_initialize_system\<close>: the three agents are built in order, each reading model,
  temperature and verbosity through the configuration object, then the orchestrator is
  wired and \<^verbatim>\<open>is_initialized\<close> set.
\<close>

definition initialize_system ::
  "'a agents_api \<Rightarrow> 'a StockAgentSystem
     \<Rightarrow> effect list \<times> (pyexn + 'a StockAgentSystem)" where
  "initialize_system api s =
     (case OrchestratorAgent api (OPENAI_MODEL (instance_attrs (config s)))
             (ORCHESTRATOR_AGENT_TEMPERATURE (instance_attrs (config s)))
             (stock_tools s) (VERBOSE (instance_attrs (config s))) of
        Inl e \<Rightarrow> init_except [Call ''OrchestratorAgent''] s e
      | Inr orc \<Rightarrow>
     (case JuniorAgent api (OPENAI_MODEL (instance_attrs (config s)))
             (JUNIOR_AGENT_TEMPERATURE (instance_attrs (config s)))
             (stock_tools s) (VERBOSE (instance_attrs (config s))) of
        Inl e \<Rightarrow>
          init_except [Call ''OrchestratorAgent'', Call ''JuniorAgent'']
            (s\<lparr>orchestrator := Some orc\<rparr>) e
      | Inr jun \<Rightarrow>
     (case MasterAgent api (OPENAI_MODEL (instance_attrs (config s)))
             (MASTER_AGENT_TEMPERATURE (instance_attrs (config s)))
             (stock_tools s) (VERBOSE (instance_attrs (config s))) of
        Inl e \<Rightarrow>
          init_except [Call ''OrchestratorAgent'', Call ''JuniorAgent'', Call ''MasterAgent'']
            (s\<lparr>orchestrator := Some orc, junior_agent := Some jun\<rparr>) e
      | Inr mas \<Rightarrow>
     (case setup_agents api orc (stock_tools s) (stock_tools s) of
        Inl e \<Rightarrow>
          init_except
            [Call ''OrchestratorAgent'', Call ''JuniorAgent'', Call ''MasterAgent'',
             Call ''setup_agents'']
            (s\<lparr>orchestrator := Some orc, junior_agent := Some jun,
               master_agent := Some mas\<rparr>) e
      | Inr orc' \<Rightarrow>
          ([Call ''OrchestratorAgent'', Call ''JuniorAgent'', Call ''MasterAgent'',
            Call ''setup_agents'',
            Print (check_mark @ '' Stock Agent System initialized successfully!'')],
           Inr (s\<lparr>orchestrator := Some orc', junior_agent := Some jun,
                  master_agent := Some mas, is_initialized := True\<rparr>))))))"

text \<open>
  \<^verbatim>\<open>__init__\<close>.  \<open>cls\<close> holds the class attributes of \<^verbatim>\<open>Config\<close>;
  \<^verbatim>\<open>config or Config()\<close> takes the configuration object passed when there is one.
  The two class methods are given the class attributes of that object.  The call of
  \<^verbatim>\<open>get_stock_tools\<close> stands outside any \<^verbatim>\<open>try\<close>: what it raises leaves the
  constructor.  The result pairs the effects of the run with its value: the exception
  that left the constructor, or the object built.
\<close>

definition config_or_default :: "Config_object option \<Rightarrow> Config \<Rightarrow> Config_object" where
  "config_or_default cfg cls = (case cfg of Some c \<Rightarrow> c | None \<Rightarrow> new_Config cls)"

definition StockAgentSystem_init ::
  "'a agents_api \<Rightarrow> Config \<Rightarrow> Config_object option
     \<Rightarrow> effect list \<times> (pyexn + 'a StockAgentSystem)" where
  "StockAgentSystem_init api cls cfg =
     (case validate_config (class_attrs (config_or_default cfg cls)) of
        Inl e \<Rightarrow> ([], Inl e)
      | Inr printed \<Rightarrow>
          (case get_stock_tools api
                  (get_stock_api_key (class_attrs (config_or_default cfg cls))) of
             Inl e \<Rightarrow> (printed @ [Call ''get_stock_tools''], Inl e)
           | Inr tools \<Rightarrow>
               (case initialize_system api
                       \<lparr> config = config_or_default cfg cls,
                         stock_tools = tools,
                         orchestrator = None,
                         junior_agent = None,
                         master_agent = None,
                         is_initialized = False,
                         session_history = [] \<rparr> of
                  (effs, res) \<Rightarrow> (printed @ [Call ''get_stock_tools''] @ effs, res))))"

text \<open>
  The awaited call \<^verbatim>\<open>self.orchestrator.orchestrate_analysis(query)\<close>; on an object
  whose \<^verbatim>\<open>orchestrator\<close> is still \<^verbatim>\<open>None\<close> the attribute access raises.
\<close>

definition call_orchestrator ::
  "'a agents_api \<Rightarrow> 'a StockAgentSystem \<Rightarrow> string \<Rightarrow> pyexn + pydict" where
  "call_orchestrator api s q =
     (case orchestrator s of
        None \<Rightarrow>
          Inl (AttributeError
                ([CHR 0x27] @ ''NoneType'' @ [CHR 0x27] @ '' object has no attribute '' @
                 [CHR 0x27] @ ''orchestrate_analysis'' @ [CHR 0x27]))
      | Some a \<Rightarrow> orchestrate_analysis api a q)"

text \<open>
  \<^verbatim>\<open>analyze_query\<close>.  \<open>now\<close> is the reading of the event loop's clock.  The value
  is \<open>Inr\<close> of the dictionary returned, or \<open>Inl\<close> of an exception leaving the method:
  the \<^verbatim>\<open>except Exception\<close> clause turns an instance of \<^verbatim>\<open>Exception\<close> into an
  error dictionary and lets any other exception pass.  The second component is the
  object after the call.
\<close>

definition analyze_query ::
  "'a agents_api \<Rightarrow> pyfloat \<Rightarrow> 'a StockAgentSystem \<Rightarrow> string
     \<Rightarrow> (pyexn + pydict) \<times> 'a StockAgentSystem" where
  "analyze_query api now s q =
     (if \<not> is_initialized s then
        (Inr [''error'' \<mapsto> PStr ''System not initialized''], s)
      else
        (case call_orchestrator api s q of
           Inr r \<Rightarrow>
             (Inr r,
              s\<lparr>session_history :=
                   session_history s @ [\<lparr>query = q, result = r, timestamp = now\<rparr>]\<rparr>)
         | Inl e \<Rightarrow>
             if is_Exception e then
               (Inr [''error'' \<mapsto> PStr (''Analysis failed: '' @ str_exn e),
                     ''query'' \<mapsto> PStr q],
                s)
             else (Inl e, s)))"

text \<open>\<^verbatim>\<open>sep.join(xs)\<close>.\<close>

fun join :: "string \<Rightarrow> string list \<Rightarrow> string" where
  "join sep [] = []"
| "join sep [x] = x"
| "join sep (x # y # ys) = x @ sep @ join sep (y # ys)"

definition get_stock_price ::
  "'a agents_api \<Rightarrow> pyfloat \<Rightarrow> 'a StockAgentSystem \<Rightarrow> string
     \<Rightarrow> (pyexn + pydict) \<times> 'a StockAgentSystem" where
  "get_stock_price api now s symbol =
     analyze_query api now s (''Get the current stock price for '' @ symbol)"

definition get_stock_info ::
  "'a agents_api \<Rightarrow> pyfloat \<Rightarrow> 'a StockAgentSystem \<Rightarrow> string
     \<Rightarrow> (pyexn + pydict) \<times> 'a StockAgentSystem" where
  "get_stock_info api now s symbol =
     analyze_query api now s (''Get detailed information about '' @ symbol)"

definition analyze_stock ::
  "'a agents_api \<Rightarrow> pyfloat \<Rightarrow> 'a StockAgentSystem \<Rightarrow> string
     \<Rightarrow> (pyexn + pydict) \<times> 'a StockAgentSystem" where
  "analyze_stock api now s symbol =
     analyze_query api now s (''Perform comprehensive analysis of '' @ symbol)"

definition compare_stocks ::
  "'a agents_api \<Rightarrow> pyfloat \<Rightarrow> 'a StockAgentSystem \<Rightarrow> string list
     \<Rightarrow> (pyexn + pydict) \<times> 'a StockAgentSystem" where
  "compare_stocks api now s symbols =
     (let symbols_str = join '', '' symbols
      in analyze_query api now s (''Compare these stocks: '' @ symbols_str))"

definition portfolio_analysis ::
  "'a agents_api \<Rightarrow> pyfloat \<Rightarrow> 'a StockAgentSystem \<Rightarrow> string list
     \<Rightarrow> (pyexn + pydict) \<times> 'a StockAgentSystem" where
  "portfolio_analysis api now s symbols =
     (let symbols_str = join '', '' symbols
      in analyze_query api now s (''Analyze this portfolio: '' @ symbols_str))"

definition market_research ::
  "'a agents_api \<Rightarrow> pyfloat \<Rightarrow> 'a StockAgentSystem \<Rightarrow> string
     \<Rightarrow> (pyexn + pydict) \<times> 'a StockAgentSystem" where
  "market_research api now s topic =
     analyze_query api now s (''Research the market for: '' @ topic)"

definition get_session_history :: "'a StockAgentSystem \<Rightarrow> history_entry list" where
  "get_session_history s = session_history s"

definition clear_session_history :: "'a StockAgentSystem \<Rightarrow> 'a StockAgentSystem" where
  "clear_session_history s = s\<lparr>session_history := []\<rparr>"

section \<open>What the specification says of the wrappers and of results\<close>

text \<open>
  The specification calls each convenience wrapper a template expansion: a fixed phrase
  with the argument embedded, a list of symbols being joined with a comma and a space
  first.  These two definitions follow that wording, not the source.
\<close>

definition template_expansion :: "string \<Rightarrow> string \<Rightarrow> string" where
  "template_expansion phrase arg = phrase @ arg"

definition comma_separated :: "string list \<Rightarrow> string" where
  "comma_separated xs =
     (case xs of [] \<Rightarrow> [] | x # ys \<Rightarrow> x @ concat (map (\<lambda>y. '', '' @ y) ys))"

text \<open>
  A dictionary that reports a failure the way the facade writes it: an
  \<^verbatim>\<open>error\<close> string and no \<^verbatim>\<open>success\<close> key.
\<close>

definition failure_dict :: "pydict \<Rightarrow> bool" where
  "failure_dict d \<longleftrightarrow>
     d ''success'' = None \<and> (case d ''error'' of Some (PStr m) \<Rightarrow> True | _ \<Rightarrow> False)"

text \<open>
  What every query-processing entry point gives back for the query text \<open>q\<close> it hands to
  \<^verbatim>\<open>analyze_query\<close>: a failure dictionary on the guard; the orchestrator's own
  dictionary when the orchestrator returns; a failure dictionary when the orchestrator
  raises an instance of \<^verbatim>\<open>Exception\<close>; and, when the orchestrator raises anything
  else, that exception, which leaves the entry point.
\<close>

definition entry_point_contract ::
  "'a agents_api \<Rightarrow> 'a StockAgentSystem \<Rightarrow> string \<Rightarrow> pyexn + pydict \<Rightarrow> bool" where
  "entry_point_contract api s q res =
     (if \<not> is_initialized s then
        (case res of Inl e \<Rightarrow> False | Inr d \<Rightarrow> failure_dict d)
      else
        (case call_orchestrator api s q of
           Inr r \<Rightarrow> res = Inr r
         | Inl e \<Rightarrow>
             if is_Exception e then
               (case res of Inl e' \<Rightarrow> False | Inr d \<Rightarrow> failure_dict d)
             else res = Inl e))"

section \<open>A concrete instance\<close>

text \<open>
  Stand-ins for the external collaborators, on which the model can be run: the tools
  name the credential they were built with, agents are numbered, the orchestrator answers
  one price query, reports a failure for any other text and raises on the empty prompt.
  In \<open>broken_api\<close> the first agent constructor raises an error, which leaves the system
  uninitialized; in \<open>halted_api\<close> the last one is interrupted; in \<open>offline_api\<close> the
  tools cannot be built; in \<open>interrupted_api\<close> every query is interrupted.
\<close>

definition demo_tools :: "string option \<Rightarrow> tool list" where
  "demo_tools key =
     [\<lparr>tool_name = ''get_stock_price'', tool_description = ''Get the current stock price''\<rparr>,
      \<lparr>tool_name = ''get_stock_info'',
       tool_description =
         ''Get company information, credential: '' @
         (case key of None \<Rightarrow> ''none'' | Some k \<Rightarrow> k)\<rparr>]"

definition demo_orchestrate :: "nat \<Rightarrow> string \<Rightarrow> pyexn + pydict" where
  "demo_orchestrate a q =
     (if q = ''Get the current stock price for AAPL'' then
        Inr [''success'' \<mapsto> PBool True, ''output'' \<mapsto> PStr ''AAPL: 189.84'',
             ''agent'' \<mapsto> PStr ''junior'']
      else if q = [] then Inl (Exception ''RuntimeError'' ''empty prompt'')
      else
        Inr [''success'' \<mapsto> PBool False, ''error'' \<mapsto> PStr ''no data'',
             ''agent'' \<mapsto> PStr ''master''])"

definition demo_api :: "nat agents_api" where
  "demo_api =
     \<lparr> get_stock_tools = (\<lambda>key. Inr (demo_tools key)),
       OrchestratorAgent = (\<lambda>model temp tools verbose. Inr 0),
       JuniorAgent = (\<lambda>model temp tools verbose. Inr 1),
       MasterAgent = (\<lambda>model temp tools verbose. Inr 2),
       setup_agents = (\<lambda>a junior_tools master_tools. Inr a),
       orchestrate_analysis = demo_orchestrate \<rparr>"

definition broken_api :: "nat agents_api" where
  "broken_api =
     demo_api\<lparr>OrchestratorAgent :=
                (\<lambda>model temp tools verbose. Inl (Exception ''RuntimeError'' ''model unavailable''))\<rparr>"



definition interrupted_api :: "nat agents_api" where
  "interrupted_api = demo_api\<lparr>orchestrate_analysis := (\<lambda>a q. Inl KeyboardInterrupt)\<rparr>"

definition unset_env :: "string \<rightharpoonup> string" where
  "unset_env = Map.empty"

definition demo_config :: Config where
  "demo_config =
     \<lparr> OPENAI_API_KEY = Some ''sk-demo'',
       OPENAI_MODEL = ''gpt-4'',
       ALPHA_VANTAGE_API_KEY = None,
       FINNHUB_API_KEY = None,
       MASTER_AGENT_TEMPERATURE = Finite (7 / 10),
       JUNIOR_AGENT_TEMPERATURE = Finite (1 / 2),
       ORCHESTRATOR_AGENT_TEMPERATURE = Finite (3 / 10),
       MAX_ITERATIONS = 10,
       VERBOSE = True \<rparr>"

text \<open>
  Two configuration objects that carry attributes of their own.  The class of the first
  has the language-model key and the Alpha Vantage key, the object itself shows no
  language-model key and a Finnhub key.  The class of the second has no language-model
  key, the object itself shows one.
\<close>

definition override_object :: Config_object where
  "override_object =
     \<lparr> class_attrs = demo_config\<lparr>ALPHA_VANTAGE_API_KEY := Some ''av-key''\<rparr>,
       instance_attrs =
         demo_config\<lparr>OPENAI_API_KEY := None, FINNHUB_API_KEY := Some ''fh-key''\<rparr> \<rparr>"


definition demo_system :: "nat StockAgentSystem" where
  "demo_system =
     \<lparr> config = new_Config demo_config,
       stock_tools = demo_tools None,
       orchestrator = Some 0,
       junior_agent = Some 1,
       master_agent = Some 2,
       is_initialized = True,
       session_history = [] \<rparr>"

definition uninitialized_system :: "nat StockAgentSystem" where
  "uninitialized_system =
     \<lparr> config = new_Config demo_config,
       stock_tools = demo_tools None,
       orchestrator = None,
       junior_agent = None,
       master_agent = None,
       is_initialized = False,
       session_history = [] \<rparr>"

section \<open>Auxiliary facts\<close>

text \<open>The concrete instance is what the constructor builds.\<close>

lemma demo_system_constructed:
  "StockAgentSystem_init demo_api demo_config None =
     ([Print ''Warning: No stock API key found. Using yfinance as fallback.'',
       Call ''get_stock_tools'', Call ''OrchestratorAgent'', Call ''JuniorAgent'',
       Call ''MasterAgent'', Call ''setup_agents'',
       Print (check_mark @ '' Stock Agent System initialized successfully!'')],
      Inr demo_system)"
  by (simp add: StockAgentSystem_init_def config_or_default_def new_Config_def
      validate_config_def initialize_system_def get_stock_api_key_def demo_api_def
      demo_config_def demo_system_def demo_tools_def)


lemma join_comma_separated: "join '', '' xs = comma_separated xs"
  by (induction "'', ''" xs rule: join.induct) (simp_all add: comma_separated_def)

text \<open>The default texts of \<^verbatim>\<open>config.py\<close>, read step by step.\<close>

lemma binary64_range_defaults:
  "binary64_range (7 / 10) = Finite (7 / 10)"
  "binary64_range (1 / 2) = Finite (1 / 2)"
  "binary64_range (3 / 10) = Finite (3 / 10)"
  by (simp_all add: binary64_range_def)

lemma default_texts_parsed:
  "take_sign (strip ''0.7'') = (False, ''0.7'')"
  "take_sign (strip ''0.5'') = (False, ''0.5'')"
  "take_sign (strip ''0.3'') = (False, ''0.3'')"
  "number ''0.7'' = Some ((''0'', ''7''), [])"
  "number ''0.5'' = Some ((''0'', ''5''), [])"
  "number ''0.3'' = Some ((''0'', ''3''), [])"
  "exponent [] = Some 0"
  "decimal_value ''0'' ''7'' 0 = 7 / 10"
  "decimal_value ''0'' ''5'' 0 = 1 / 2"
  "decimal_value ''0'' ''3'' 0 = 3 / 10"
  "lower ''0.7'' = ''0.7''"
  "lower ''0.5'' = ''0.5''"
  "lower ''0.3'' = ''0.3''"
  by code_simp+

lemma py_float_defaults:
  "py_float ''0.7'' = Inr (Finite (7 / 10))"
  "py_float ''0.5'' = Inr (Finite (1 / 2))"
  "py_float ''0.3'' = Inr (Finite (3 / 10))"
  by (simp_all add: py_float_def default_texts_parsed binary64_range_defaults)

lemma py_int_default: "py_int ''10'' = Inr 10"
  by code_simp

lemma lower_True: "lower ''True'' = ''true''"
  by code_simp

lemma failure_dict_not_initialized:
  "failure_dict [''error'' \<mapsto> PStr ''System not initialized'']"
  by (simp add: failure_dict_def)

lemma failure_dict_analysis_failed:
  "failure_dict [''error'' \<mapsto> PStr m, ''query'' \<mapsto> PStr q]"
  by (simp add: failure_dict_def)

lemma analyze_query_contract:
  "entry_point_contract api s q (fst (analyze_query api now s q))"
  by (simp add: entry_point_contract_def analyze_query_def failure_dict_not_initialized
      failure_dict_analysis_failed split: sum.split)

text \<open>The constructor, step by step.\<close>

lemma class_attrs_config_or_default:
  "class_attrs (config_or_default cfg cls) =
     (case cfg of None \<Rightarrow> cls | Some c \<Rightarrow> class_attrs c)"
  by (simp add: config_or_default_def new_Config_def split: option.split)

lemma init_except_result:
  assumes "init_except effs s e = (effs', res)"
    and "filter (\<lambda>x. x = Call ''get_stock_tools'') effs = []"
  shows "filter (\<lambda>x. x = Call ''get_stock_tools'') effs' = [] \<and>
     (\<forall>s'. res = Inr s' \<longrightarrow> stock_tools s' = stock_tools s) \<and>
     (\<forall>e'. res = Inl e' \<longrightarrow> \<not> is_Exception e')"
  using assms by (auto simp add: init_except_def init_failed_def split: if_splits)

lemma initialize_system_result:
  assumes "initialize_system api s = (effs, res)"
  shows "filter (\<lambda>x. x = Call ''get_stock_tools'') effs = [] \<and>
     (\<forall>s'. res = Inr s' \<longrightarrow> stock_tools s' = stock_tools s) \<and>
     (\<forall>e. res = Inl e \<longrightarrow> \<not> is_Exception e)"
proof (cases "OrchestratorAgent api (OPENAI_MODEL (instance_attrs (config s)))
    (ORCHESTRATOR_AGENT_TEMPERATURE (instance_attrs (config s)))
    (stock_tools s) (VERBOSE (instance_attrs (config s)))")
  case (Inl e)
  with assms have "init_except [Call ''OrchestratorAgent''] s e = (effs, res)"
    by (simp add: initialize_system_def)
  from init_except_result [OF this] show ?thesis by simp
next
  case orc: (Inr orc)
  show ?thesis
  proof (cases "JuniorAgent api (OPENAI_MODEL (instance_attrs (config s)))
      (JUNIOR_AGENT_TEMPERATURE (instance_attrs (config s)))
      (stock_tools s) (VERBOSE (instance_attrs (config s)))")
    case (Inl e)
    with assms orc have "init_except [Call ''OrchestratorAgent'', Call ''JuniorAgent'']
        (s\<lparr>orchestrator := Some orc\<rparr>) e = (effs, res)"
      by (simp add: initialize_system_def)
    from init_except_result [OF this] show ?thesis by simp
  next
    case jun: (Inr jun)
    show ?thesis
    proof (cases "MasterAgent api (OPENAI_MODEL (instance_attrs (config s)))
        (MASTER_AGENT_TEMPERATURE (instance_attrs (config s)))
        (stock_tools s) (VERBOSE (instance_attrs (config s)))")
      case (Inl e)
      with assms orc jun have
        "init_except [Call ''OrchestratorAgent'', Call ''JuniorAgent'', Call ''MasterAgent'']
          (s\<lparr>orchestrator := Some orc, junior_agent := Some jun\<rparr>) e = (effs, res)"
        by (simp add: initialize_system_def)
      from init_except_result [OF this] show ?thesis by simp
    next
      case mas: (Inr mas)
      show ?thesis
      proof (cases "setup_agents api orc (stock_tools s) (stock_tools s)")
        case (Inl e)
        with assms orc jun mas have
          "init_except [Call ''OrchestratorAgent'', Call ''JuniorAgent'', Call ''MasterAgent'',
              Call ''setup_agents'']
            (s\<lparr>orchestrator := Some orc, junior_agent := Some jun,
               master_agent := Some mas\<rparr>) e = (effs, res)"
          by (simp add: initialize_system_def)
        from init_except_result [OF this] show ?thesis by simp
      next
        case (Inr orc')
        with assms orc jun mas show ?thesis
          by (auto simp add: initialize_system_def)
      qed
    qed
  qed
qed

lemma init_raises:
  "\<not> truthy_str (OPENAI_API_KEY (class_attrs (config_or_default cfg cls))) \<Longrightarrow>
     StockAgentSystem_init api cls cfg =
       ([], Inl (ValueError ''OPENAI_API_KEY is required. Please set it in your .env file''))"
  by (simp add: StockAgentSystem_init_def validate_config_def)

lemma init_proceeds:
  assumes "truthy_str (OPENAI_API_KEY (class_attrs (config_or_default cfg cls)))"
  shows "\<exists>printed effs res.
     validate_config (class_attrs (config_or_default cfg cls)) = Inr printed \<and>
     StockAgentSystem_init api cls cfg = (printed @ Call ''get_stock_tools'' # effs, res) \<and>
     filter (\<lambda>x. x = Call ''get_stock_tools'') effs = [] \<and>
     (\<forall>s. res = Inr s \<longrightarrow>
        get_stock_tools api (get_stock_api_key (class_attrs (config_or_default cfg cls))) =
          Inr (stock_tools s)) \<and>
     (\<forall>e. res = Inl e \<longrightarrow>
        get_stock_tools api (get_stock_api_key (class_attrs (config_or_default cfg cls))) =
          Inl e \<or> \<not> is_Exception e)"
proof -
  let ?K = "class_attrs (config_or_default cfg cls)"
  have "\<exists>printed. validate_config ?K = Inr printed"
    using assms by (simp add: validate_config_def)
  then obtain printed where v: "validate_config ?K = Inr printed"
    by blast
  show ?thesis
  proof (cases "get_stock_tools api (get_stock_api_key ?K)")
    case (Inl e)
    with v have "StockAgentSystem_init api cls cfg =
        (printed @ Call ''get_stock_tools'' # [], Inl e)"
      by (simp add: StockAgentSystem_init_def)
    with v Inl show ?thesis
      by (intro exI [of _ printed] exI [of _ "[]"] exI [of _ "Inl e"]) simp
  next
    case (Inr tools)
    let ?s0 = "\<lparr> config = config_or_default cfg cls, stock_tools = tools,
                  orchestrator = None, junior_agent = None, master_agent = None,
                  is_initialized = False, session_history = [] \<rparr>"
    obtain effs res where i: "initialize_system api ?s0 = (effs, res)"
      by (cases "initialize_system api ?s0")
    from initialize_system_result [OF i]
    have r: "filter (\<lambda>x. x = Call ''get_stock_tools'') effs = []"
      "\<forall>s'. res = Inr s' \<longrightarrow> stock_tools s' = tools"
      "\<forall>e. res = Inl e \<longrightarrow> \<not> is_Exception e"
      by simp_all
    have "StockAgentSystem_init api cls cfg = (printed @ Call ''get_stock_tools'' # effs, res)"
      using v Inr i by (simp add: StockAgentSystem_init_def)
    with v Inr r show ?thesis
      by (intro exI [of _ printed] exI [of _ effs] exI [of _ res]) simp
  qed
qed

lemma validate_config_calls:
  "validate_config c = Inr printed \<Longrightarrow> filter (\<lambda>e. e = Call ''get_stock_tools'') printed = []"
  by (auto simp add: validate_config_def split: if_splits)

lemma override_system_constructed:
  "StockAgentSystem_init demo_api demo_config (Some override_object) =
     ([Call ''get_stock_tools'', Call ''OrchestratorAgent'', Call ''JuniorAgent'',
       Call ''MasterAgent'', Call ''setup_agents'',
       Print (check_mark @ '' Stock Agent System initialized successfully!'')],
      Inr (demo_system\<lparr>config := override_object,
                        stock_tools := demo_tools (Some ''av-key'')\<rparr>))"
  by (simp add: StockAgentSystem_init_def config_or_default_def override_object_def
      validate_config_def initialize_system_def get_stock_api_key_def demo_api_def
      demo_config_def demo_system_def)

section \<open>The claims\<close>

subsection \<open>C1: what every entry point returns\<close>

text \<open>
  C1, as the specification has it, says that the dictionary returned by
  \<^verbatim>\<open>analyze_query\<close> and by each convenience wrapper holds a boolean
  \<^verbatim>\<open>success\<close> key on every path.  The source writes no such key on the guard and on
  the caught-exception path.  What holds, for \<^verbatim>\<open>analyze_query\<close> and the six
  wrappers alike: on the not-initialized guard, and when the orchestrator raises an
  instance of \<^verbatim>\<open>Exception\<close>, the entry point returns a dictionary with an
  \<^verbatim>\<open>error\<close> string and no \<^verbatim>\<open>success\<close> key, so that the callers'
  \<^verbatim>\<open>result.get("success")\<close> is \<^verbatim>\<open>None\<close>, which is falsy; when the orchestrator
  returns, its dictionary is handed back unchanged; when the orchestrator raises an
  exception that is no instance of \<^verbatim>\<open>Exception\<close>, no dictionary is returned and
  that exception leaves the entry point.
\<close>

theorem entry_points_return_dictionary:
  "entry_point_contract api s q (fst (analyze_query api now s q)) \<and>
   entry_point_contract api s (''Get the current stock price for '' @ symbol)
     (fst (get_stock_price api now s symbol)) \<and>
   entry_point_contract api s (''Get detailed information about '' @ symbol)
     (fst (get_stock_info api now s symbol)) \<and>
   entry_point_contract api s (''Perform comprehensive analysis of '' @ symbol)
     (fst (analyze_stock api now s symbol)) \<and>
   entry_point_contract api s (''Compare these stocks: '' @ join '', '' symbols)
     (fst (compare_stocks api now s symbols)) \<and>
   entry_point_contract api s (''Analyze this portfolio: '' @ join '', '' symbols)
     (fst (portfolio_analysis api now s symbols)) \<and>
   entry_point_contract api s (''Research the market for: '' @ topic)
     (fst (market_research api now s topic)) \<and>
   (\<forall>d. failure_dict d \<longrightarrow> \<not> truthy (dict_get d ''success''))"
  unfolding get_stock_price_def get_stock_info_def analyze_stock_def compare_stocks_def
    portfolio_analysis_def market_research_def Let_def
  by (simp add: analyze_query_contract failure_dict_def dict_get_def)

text \<open>
  The four paths on the concrete instance: the orchestrator raises an error on the empty
  prompt, it answers the price query, the uninitialized system refuses a comparison, and
  an interrupt during market research leaves the wrapper.
\<close>

theorem entry_points_return_dictionary_witness:
  "fst (analyze_query demo_api (Finite 0) demo_system []) =
     Inr [''error'' \<mapsto> PStr ''Analysis failed: empty prompt'', ''query'' \<mapsto> PStr []] \<and>
   entry_point_contract demo_api demo_system []
     (fst (analyze_query demo_api (Finite 0) demo_system [])) \<and>
   fst (get_stock_price demo_api (Finite 0) demo_system ''AAPL'') =
     Inr [''success'' \<mapsto> PBool True, ''output'' \<mapsto> PStr ''AAPL: 189.84'',
          ''agent'' \<mapsto> PStr ''junior''] \<and>
   entry_point_contract demo_api demo_system ''Get the current stock price for AAPL''
     (fst (get_stock_price demo_api (Finite 0) demo_system ''AAPL'')) \<and>
   entry_point_contract broken_api uninitialized_system
     (''Compare these stocks: '' @ join '', '' [''AAPL'', ''MSFT''])
     (fst (compare_stocks broken_api (Finite 0) uninitialized_system [''AAPL'', ''MSFT''])) \<and>
   fst (market_research interrupted_api (Finite 0) demo_system ''AI'') = Inl KeyboardInterrupt \<and>
   entry_point_contract interrupted_api demo_system ''Research the market for: AI''
     (fst (market_research interrupted_api (Finite 0) demo_system ''AI'')) \<and>
   failure_dict [''error'' \<mapsto> PStr ''System not initialized''] \<and>
   \<not> truthy (dict_get [''error'' \<mapsto> PStr ''System not initialized''] ''success'')"
  using entry_points_return_dictionary
      [of demo_api demo_system "[]" "Finite 0" "''AAPL''" "[''AAPL'', ''MSFT'']" "''AI''"]
    entry_points_return_dictionary
      [of broken_api uninitialized_system "[]" "Finite 0" "''AAPL''" "[''AAPL'', ''MSFT'']" "''AI''"]
    entry_points_return_dictionary
      [of interrupted_api demo_system "[]" "Finite 0" "''AAPL''" "[''AAPL'', ''MSFT'']" "''AI''"]
  by (simp add: analyze_query_def get_stock_price_def market_research_def call_orchestrator_def
      demo_system_def demo_api_def interrupted_api_def demo_orchestrate_def failure_dict_def
      dict_get_def)

text \<open>
  Against C1 as stated: on an initialized system whose orchestrator raises, the
  dictionary returned has no \<^verbatim>\<open>success\<close> key at all.
\<close>

theorem caught_exception_result_has_no_success_key:
  "is_initialized demo_system \<and>
   call_orchestrator demo_api demo_system [] = Inl (Exception ''RuntimeError'' ''empty prompt'') \<and>
   fst (analyze_query demo_api (Finite 0) demo_system []) =
     Inr [''error'' \<mapsto> PStr ''Analysis failed: empty prompt'', ''query'' \<mapsto> PStr []] \<and>
   [''error'' \<mapsto> PStr ''Analysis failed: empty prompt'', ''query'' \<mapsto> PStr []] ''success'' = None"
  by (simp add: analyze_query_def call_orchestrator_def demo_system_def demo_api_def
      demo_orchestrate_def)

subsection \<open>C2: the guard\<close>

text \<open>
  C2 says that a query on a system that is not initialized yields exactly
  \<^verbatim>\<open>{success: false, error: "System not initialized"}\<close> and appends nothing to the
  history.  The dictionary of the source has the \<^verbatim>\<open>error\<close> key only.  What holds:
  the result is exactly \<^verbatim>\<open>{"error": "System not initialized"}\<close> and the whole object,
  its history included, is as before.
\<close>

theorem analyze_query_not_initialized:
  "\<not> is_initialized s \<Longrightarrow>
     analyze_query api now s q = (Inr [''error'' \<mapsto> PStr ''System not initialized''], s) \<and>
     session_history (snd (analyze_query api now s q)) = session_history s"
  by (simp add: analyze_query_def)

theorem analyze_query_not_initialized_witness:
  "\<not> is_initialized uninitialized_system \<and>
   analyze_query broken_api (Finite 2) uninitialized_system ''Get the current stock price for AAPL'' =
     (Inr [''error'' \<mapsto> PStr ''System not initialized''], uninitialized_system)"
proof -
  have n: "\<not> is_initialized uninitialized_system"
    by (simp add: uninitialized_system_def)
  from analyze_query_not_initialized [OF n] n show ?thesis
    by simp
qed

text \<open>Against C2 as stated: the dictionary returned is not the one with a \<^verbatim>\<open>success\<close> key.\<close>

theorem not_initialized_result_has_no_success_key:
  "\<not> is_initialized uninitialized_system \<and>
   fst (analyze_query broken_api (Finite 0) uninitialized_system
          ''Get the current stock price for AAPL'')
     \<noteq> Inr [''success'' \<mapsto> PBool False, ''error'' \<mapsto> PStr ''System not initialized'']"
  by (auto simp add: analyze_query_def uninitialized_system_def
      dest: fun_cong [where x = "''success''"])

subsection \<open>C3: the history grows by one entry\<close>

text \<open>
  C3 says that every call of \<^verbatim>\<open>analyze_query\<close> that passes the guard and reaches
  the orchestrator lengthens the session history by exactly one.  A call in which the
  orchestrator raises reaches it too, and appends nothing.  What holds: when the system is
  initialized and the orchestrator returns a dictionary, whatever it reports, that
  dictionary is the result and one entry, made of the query, the dictionary and the
  clock reading, is appended at the end of the history.
\<close>

theorem analyze_query_appends_one_entry:
  "is_initialized s \<Longrightarrow> call_orchestrator api s q = Inr r \<Longrightarrow>
     fst (analyze_query api now s q) = Inr r \<and>
     session_history (snd (analyze_query api now s q)) =
       session_history s @ [\<lparr>query = q, result = r, timestamp = now\<rparr>] \<and>
     length (session_history (snd (analyze_query api now s q))) =
       length (session_history s) + 1"
  by (simp add: analyze_query_def)

text \<open>An orchestrator result that reports a failure is recorded like any other.\<close>

theorem analyze_query_appends_one_entry_witness:
  "is_initialized demo_system \<and>
   call_orchestrator demo_api demo_system ''Research the market for: AI'' =
     Inr [''success'' \<mapsto> PBool False, ''error'' \<mapsto> PStr ''no data'',
          ''agent'' \<mapsto> PStr ''master''] \<and>
   length (session_history
     (snd (analyze_query demo_api (Finite 12) demo_system ''Research the market for: AI''))) = 1"
proof -
  have i: "is_initialized demo_system"
    by (simp add: demo_system_def)
  have c: "call_orchestrator demo_api demo_system ''Research the market for: AI'' =
     Inr [''success'' \<mapsto> PBool False, ''error'' \<mapsto> PStr ''no data'',
          ''agent'' \<mapsto> PStr ''master'']"
    by (simp add: call_orchestrator_def demo_system_def demo_api_def demo_orchestrate_def)
  have "session_history demo_system = []"
    by (simp add: demo_system_def)
  with analyze_query_appends_one_entry [OF i c, of "Finite 12"] i c show ?thesis
    by simp
qed

text \<open>
  Against C3 as stated: the call passes the guard, the orchestrator is reached and
  raises, and the history has the length it had.
\<close>

theorem raising_orchestrator_appends_nothing:
  "is_initialized demo_system \<and> orchestrator demo_system = Some 0 \<and>
   orchestrate_analysis demo_api 0 [] = Inl (Exception ''RuntimeError'' ''empty prompt'') \<and>
   length (session_history (snd (analyze_query demo_api (Finite 0) demo_system []))) = 0 \<and>
   length (session_history (snd (analyze_query demo_api (Finite 0) demo_system []))) \<noteq>
     length (session_history demo_system) + 1"
  by (simp add: analyze_query_def call_orchestrator_def demo_system_def demo_api_def
      demo_orchestrate_def)

subsection \<open>C4: which exceptions of the orchestrator are caught\<close>

text \<open>
  C4 says that whatever the orchestrator call raises is caught and that no exception
  ever reaches the caller of \<^verbatim>\<open>analyze_query\<close>.  The clause of the source is
  \<^verbatim>\<open>except Exception\<close>, and \<^verbatim>\<open>KeyboardInterrupt\<close>, \<^verbatim>\<open>SystemExit\<close> and
  \<^verbatim>\<open>asyncio.CancelledError\<close> are no instances of that class.  What holds: when the
  orchestrator call raises an instance of \<^verbatim>\<open>Exception\<close>, \<^verbatim>\<open>analyze_query\<close>
  returns the dictionary with \<^verbatim>\<open>Analysis failed: \<close> followed by the text of the
  exception under \<^verbatim>\<open>error\<close> and the original query under \<^verbatim>\<open>query\<close>, which a
  caller's \<^verbatim>\<open>result.get("success")\<close> finds a failure; an exception leaves
  \<^verbatim>\<open>analyze_query\<close> only when the system is initialized and the orchestrator call
  raised it and it is no instance of \<^verbatim>\<open>Exception\<close>; and every such exception does
  leave it.
\<close>

theorem analyze_query_catches_Exception:
  "(is_initialized s \<and> call_orchestrator api s q = Inl e \<and> is_Exception e \<longrightarrow>
      fst (analyze_query api now s q) =
        Inr [''error'' \<mapsto> PStr (''Analysis failed: '' @ str_exn e), ''query'' \<mapsto> PStr q] \<and>
      \<not> truthy (dict_get [''error'' \<mapsto> PStr (''Analysis failed: '' @ str_exn e),
                           ''query'' \<mapsto> PStr q] ''success'')) \<and>
   (fst (analyze_query api now s q) = Inl e \<longrightarrow>
      is_initialized s \<and> call_orchestrator api s q = Inl e \<and> \<not> is_Exception e) \<and>
   (is_initialized s \<and> call_orchestrator api s q = Inl e \<and> \<not> is_Exception e \<longrightarrow>
      fst (analyze_query api now s q) = Inl e)"
  by (auto simp add: analyze_query_def dict_get_def split: sum.splits if_splits)

text \<open>A runtime error of the orchestrator is turned into a dictionary; an interrupt is not.\<close>

theorem analyze_query_catches_Exception_witness:
  "is_initialized demo_system \<and>
   call_orchestrator demo_api demo_system [] = Inl (Exception ''RuntimeError'' ''empty prompt'') \<and>
   is_Exception (Exception ''RuntimeError'' ''empty prompt'') \<and>
   fst (analyze_query demo_api (Finite 3) demo_system []) =
     Inr [''error'' \<mapsto> PStr ''Analysis failed: empty prompt'', ''query'' \<mapsto> PStr []] \<and>
   call_orchestrator interrupted_api demo_system ''Get the current stock price for AAPL'' =
     Inl KeyboardInterrupt \<and>
   \<not> is_Exception KeyboardInterrupt \<and>
   fst (analyze_query interrupted_api (Finite 3) demo_system
          ''Get the current stock price for AAPL'') = Inl KeyboardInterrupt"
proof -
  have i: "is_initialized demo_system"
    by (simp add: demo_system_def)
  have c: "call_orchestrator demo_api demo_system [] =
      Inl (Exception ''RuntimeError'' ''empty prompt'')"
    by (simp add: call_orchestrator_def demo_system_def demo_api_def demo_orchestrate_def)
  have k: "call_orchestrator interrupted_api demo_system
      ''Get the current stock price for AAPL'' = Inl KeyboardInterrupt"
    by (simp add: call_orchestrator_def demo_system_def demo_api_def interrupted_api_def)
  from analyze_query_catches_Exception
      [of demo_system demo_api "[]" "Exception ''RuntimeError'' ''empty prompt''" "Finite 3"]
    analyze_query_catches_Exception
      [of demo_system interrupted_api "''Get the current stock price for AAPL''"
        KeyboardInterrupt "Finite 3"]
    i c k
  show ?thesis by simp
qed

text \<open>
  Against C4 as stated: the system is initialized, the orchestrator call is interrupted,
  and the interrupt reaches the caller of \<^verbatim>\<open>analyze_query\<close>.
\<close>

theorem interrupt_leaves_analyze_query:
  "is_initialized demo_system \<and>
   call_orchestrator interrupted_api demo_system ''Get the current stock price for AAPL'' =
     Inl KeyboardInterrupt \<and>
   fst (analyze_query interrupted_api (Finite 0) demo_system
          ''Get the current stock price for AAPL'') = Inl KeyboardInterrupt"
  by (simp add: analyze_query_def call_orchestrator_def demo_system_def demo_api_def
      interrupted_api_def)

subsection \<open>C5: what makes construction fail\<close>




subsection \<open>C6: the convenience wrappers\<close>

text \<open>
  C6: each wrapper is \<^verbatim>\<open>analyze_query\<close> on a fixed phrase followed by its argument,
  the two list wrappers joining the symbols with a comma and a space first; result and
  object after the call are those of \<^verbatim>\<open>analyze_query\<close>, so a wrapper changes nothing
  else.  The right-hand sides are written with the specification's template expansion.
\<close>

theorem wrappers_are_template_expansions:
  "get_stock_price api now s symbol =
     analyze_query api now s (template_expansion ''Get the current stock price for '' symbol) \<and>
   get_stock_info api now s symbol =
     analyze_query api now s (template_expansion ''Get detailed information about '' symbol) \<and>
   analyze_stock api now s symbol =
     analyze_query api now s (template_expansion ''Perform comprehensive analysis of '' symbol) \<and>
   compare_stocks api now s symbols =
     analyze_query api now s
       (template_expansion ''Compare these stocks: '' (comma_separated symbols)) \<and>
   portfolio_analysis api now s symbols =
     analyze_query api now s
       (template_expansion ''Analyze this portfolio: '' (comma_separated symbols)) \<and>
   market_research api now s topic =
     analyze_query api now s (template_expansion ''Research the market for: '' topic)"
  by (simp add: get_stock_price_def get_stock_info_def analyze_stock_def compare_stocks_def
      portfolio_analysis_def market_research_def template_expansion_def join_comma_separated)

theorem wrappers_are_template_expansions_witness:
  "compare_stocks demo_api (Finite 1) demo_system [''AAPL'', ''MSFT'', ''GOOGL''] =
     analyze_query demo_api (Finite 1) demo_system ''Compare these stocks: AAPL, MSFT, GOOGL'' \<and>
   get_stock_price demo_api (Finite 1) demo_system ''AAPL'' =
     analyze_query demo_api (Finite 1) demo_system ''Get the current stock price for AAPL'' \<and>
   portfolio_analysis demo_api (Finite 1) demo_system [] =
     analyze_query demo_api (Finite 1) demo_system ''Analyze this portfolio: ''"
  using wrappers_are_template_expansions
      [of demo_api "Finite 1" demo_system "''AAPL''" "[''AAPL'', ''MSFT'', ''GOOGL'']" "''AI''"]
    wrappers_are_template_expansions
      [of demo_api "Finite 1" demo_system "''AAPL''" "[]" "''AI''"]
  by (simp add: template_expansion_def comma_separated_def)

subsection \<open>C7: clearing the history\<close>

text \<open>
  C7: in every state, \<^verbatim>\<open>get_session_history\<close> after \<^verbatim>\<open>clear_session_history\<close>
  gives the empty sequence, and clearing twice leaves the object as clearing once does.
\<close>

theorem clear_session_history_empties:
  "get_session_history (clear_session_history s) = [] \<and>
   clear_session_history (clear_session_history s) = clear_session_history s"
  by (simp add: get_session_history_def clear_session_history_def)

text \<open>A history with one entry in it is gone after the call.\<close>

theorem clear_session_history_empties_witness:
  "get_session_history
     (clear_session_history
        (snd (analyze_query demo_api (Finite 5) demo_system
                ''Compare these stocks: AAPL, MSFT''))) = [] \<and>
   length (session_history
     (snd (analyze_query demo_api (Finite 5) demo_system
             ''Compare these stocks: AAPL, MSFT''))) = 1"
  using clear_session_history_empties
      [of "snd (analyze_query demo_api (Finite 5) demo_system
                  ''Compare these stocks: AAPL, MSFT'')"]
  by (simp add: analyze_query_def call_orchestrator_def demo_system_def demo_api_def
      demo_orchestrate_def)

subsection \<open>C8: the defaults of the configuration\<close>

text \<open>
  C8 gives 0.7 as the default temperature of the orchestrator.  In \<^verbatim>\<open>config.py\<close>
  0.7 is the default of the master agent; the orchestrator's is 0.3 and the junior
  agent's 0.5.  What holds: with the model, the three temperatures, the iteration cap and
  the verbosity flag unset in the environment, the class attributes are the model
  \<^verbatim>\<open>gpt-4\<close>, master temperature 0.7, junior temperature 0.5, orchestrator
  temperature 0.3, ten iterations at most and verbosity on; the three keys are what the
  environment holds.
\<close>

theorem Config_defaults:
  "env ''OPENAI_MODEL'' = None \<Longrightarrow>
   env ''MASTER_AGENT_TEMPERATURE'' = None \<Longrightarrow>
   env ''JUNIOR_AGENT_TEMPERATURE'' = None \<Longrightarrow>
   env ''ORCHESTRATOR_AGENT_TEMPERATURE'' = None \<Longrightarrow>
   env ''MAX_ITERATIONS'' = None \<Longrightarrow>
   env ''VERBOSE'' = None \<Longrightarrow>
   Config_class env =
     Inr \<lparr> OPENAI_API_KEY = env ''OPENAI_API_KEY'',
           OPENAI_MODEL = ''gpt-4'',
           ALPHA_VANTAGE_API_KEY = env ''ALPHA_VANTAGE_API_KEY'',
           FINNHUB_API_KEY = env ''FINNHUB_API_KEY'',
           MASTER_AGENT_TEMPERATURE = Finite (7 / 10),
           JUNIOR_AGENT_TEMPERATURE = Finite (1 / 2),
           ORCHESTRATOR_AGENT_TEMPERATURE = Finite (3 / 10),
           MAX_ITERATIONS = 10,
           VERBOSE = True \<rparr>"
  by (simp add: Config_class_def getenv_default_def getenv_def py_float_defaults py_int_default
      lower_True)

theorem Config_defaults_witness:
  "Config_class unset_env =
     Inr \<lparr> OPENAI_API_KEY = None,
           OPENAI_MODEL = ''gpt-4'',
           ALPHA_VANTAGE_API_KEY = None,
           FINNHUB_API_KEY = None,
           MASTER_AGENT_TEMPERATURE = Finite (7 / 10),
           JUNIOR_AGENT_TEMPERATURE = Finite (1 / 2),
           ORCHESTRATOR_AGENT_TEMPERATURE = Finite (3 / 10),
           MAX_ITERATIONS = 10,
           VERBOSE = True \<rparr>"
  using Config_defaults [of unset_env]
  by (simp add: unset_env_def)

text \<open>
  Against C8 as stated: in the empty environment the orchestrator's temperature is 0.3,
  which is not 0.7.
\<close>

theorem orchestrator_temperature_default_is_not_0_7:
  "map_sum id ORCHESTRATOR_AGENT_TEMPERATURE (Config_class unset_env) = Inr (Finite (3 / 10)) \<and>
   map_sum id ORCHESTRATOR_AGENT_TEMPERATURE (Config_class unset_env) \<noteq> Inr (Finite (7 / 10))"
  by (simp add: Config_class_def getenv_default_def getenv_def py_float_defaults py_int_default
      lower_True unset_env_def)

subsection \<open>C9: which stock-data credential is used\<close>

text \<open>
  C9: \<^verbatim>\<open>get_stock_api_key\<close> gives the Alpha Vantage key when it is present
  (truthy), else the Finnhub key when that is present, else no credential (a falsy
  value).  The constructor asks for it once, of the class attributes \<open>K\<close> of the
  configuration in use: a constructor run that returns has called
  \<^verbatim>\<open>get_stock_tools\<close> exactly once, with that key, and the tool set of the object is
  what that call returned; neither a query nor clearing the history replaces it.
\<close>

theorem stock_api_key_preference:
  assumes "K = (case cfg of None \<Rightarrow> cls | Some c \<Rightarrow> class_attrs c)"
  shows
  "(truthy_str (ALPHA_VANTAGE_API_KEY c) \<longrightarrow> get_stock_api_key c = ALPHA_VANTAGE_API_KEY c) \<and>
   (\<not> truthy_str (ALPHA_VANTAGE_API_KEY c) \<and> truthy_str (FINNHUB_API_KEY c) \<longrightarrow>
      get_stock_api_key c = FINNHUB_API_KEY c) \<and>
   (\<not> truthy_str (ALPHA_VANTAGE_API_KEY c) \<and> \<not> truthy_str (FINNHUB_API_KEY c) \<longrightarrow>
      \<not> truthy_str (get_stock_api_key c)) \<and>
   (\<forall>effs s. StockAgentSystem_init api cls cfg = (effs, Inr s) \<longrightarrow>
      get_stock_tools api (get_stock_api_key K) = Inr (stock_tools s) \<and>
      length (filter (\<lambda>e. e = Call ''get_stock_tools'') effs) = 1) \<and>
   stock_tools (snd (analyze_query api now sys q)) = stock_tools sys \<and>
   stock_tools (clear_session_history sys) = stock_tools sys"
proof -
  have K: "class_attrs (config_or_default cfg cls) = K"
    using assms by (simp add: class_attrs_config_or_default)
  have a: "\<forall>effs s. StockAgentSystem_init api cls cfg = (effs, Inr s) \<longrightarrow>
      get_stock_tools api (get_stock_api_key K) = Inr (stock_tools s) \<and>
      length (filter (\<lambda>e. e = Call ''get_stock_tools'') effs) = 1"
  proof (cases "truthy_str (OPENAI_API_KEY K)")
    case False
    with init_raises [of cfg cls api] K show ?thesis by simp
  next
    case True
    with K have t: "truthy_str (OPENAI_API_KEY (class_attrs (config_or_default cfg cls)))"
      by simp
    from init_proceeds [OF t, of api] K
    obtain printed effs res where
      v: "validate_config K = Inr printed" and
      r: "StockAgentSystem_init api cls cfg = (printed @ Call ''get_stock_tools'' # effs, res)" and
      f: "filter (\<lambda>x. x = Call ''get_stock_tools'') effs = []" and
      ok: "\<forall>s. res = Inr s \<longrightarrow> get_stock_tools api (get_stock_api_key K) = Inr (stock_tools s)"
      by auto
    from validate_config_calls [OF v] r f ok show ?thesis
      by simp
  qed
  have b: "stock_tools (snd (analyze_query api now sys q)) = stock_tools sys"
    by (simp add: analyze_query_def split: sum.split)
  show ?thesis
    using a b by (simp add: get_stock_api_key_def clear_session_history_def)
qed

text \<open>
  Both keys set, only the second set, the first set but empty, and none set; and an
  object whose class has the Alpha Vantage key while the object itself shows a Finnhub
  key gets the tools built with the key of the class.
\<close>

theorem stock_api_key_preference_witness:
  "get_stock_api_key
     (demo_config\<lparr>ALPHA_VANTAGE_API_KEY := Some ''av-key'', FINNHUB_API_KEY := Some ''fh-key''\<rparr>) =
     Some ''av-key'' \<and>
   get_stock_api_key (demo_config\<lparr>FINNHUB_API_KEY := Some ''fh-key''\<rparr>) = Some ''fh-key'' \<and>
   get_stock_api_key
     (demo_config\<lparr>ALPHA_VANTAGE_API_KEY := Some [], FINNHUB_API_KEY := Some ''fh-key''\<rparr>) =
     Some ''fh-key'' \<and>
   get_stock_api_key demo_config = None \<and>
   get_stock_api_key (class_attrs override_object) = Some ''av-key'' \<and>
   get_stock_api_key (instance_attrs override_object) = Some ''fh-key'' \<and>
   (case snd (StockAgentSystem_init demo_api demo_config (Some override_object)) of
      Inl e \<Rightarrow> False
    | Inr s \<Rightarrow> get_stock_tools demo_api (Some ''av-key'') = Inr (stock_tools s)) \<and>
   (case snd (StockAgentSystem_init demo_api demo_config None) of
      Inl e \<Rightarrow> False
    | Inr s \<Rightarrow> get_stock_tools demo_api None = Inr (stock_tools s))"
proof -
  have k:
    "get_stock_api_key
       (demo_config\<lparr>ALPHA_VANTAGE_API_KEY := Some ''av-key'', FINNHUB_API_KEY := Some ''fh-key''\<rparr>) =
       Some ''av-key''"
    "get_stock_api_key (demo_config\<lparr>FINNHUB_API_KEY := Some ''fh-key''\<rparr>) = Some ''fh-key''"
    "get_stock_api_key
       (demo_config\<lparr>ALPHA_VANTAGE_API_KEY := Some [], FINNHUB_API_KEY := Some ''fh-key''\<rparr>) =
       Some ''fh-key''"
    "get_stock_api_key demo_config = None"
    "get_stock_api_key (class_attrs override_object) = Some ''av-key''"
    "get_stock_api_key (instance_attrs override_object) = Some ''fh-key''"
    by (simp_all add: get_stock_api_key_def override_object_def demo_config_def)
  from stock_api_key_preference
      [OF refl, of demo_config demo_api demo_config "Some override_object" "Finite 0"
        demo_system "[]"]
  have o: "get_stock_tools demo_api (Some ''av-key'') =
      Inr (stock_tools (demo_system\<lparr>config := override_object,
                                      stock_tools := demo_tools (Some ''av-key'')\<rparr>))"
    by (simp add: override_system_constructed k)
  from stock_api_key_preference
      [OF refl, of demo_config demo_api demo_config None "Finite 0" demo_system "[]"]
  have d: "get_stock_tools demo_api None = Inr (stock_tools demo_system)"
    by (simp add: demo_system_constructed k)
  show ?thesis
    using k o d by (simp add: demo_system_constructed override_system_constructed)
qed

subsection \<open>C10: the error path leaves the history alone\<close>

text \<open>
  C10: when the system is initialized and the orchestrator call raises,
  \<^verbatim>\<open>analyze_query\<close> returns its error dictionary with the object exactly as it was:
  the session history is the one before the call, nothing appended.
\<close>

theorem analyze_query_exception_leaves_history:
  "is_initialized s \<Longrightarrow> call_orchestrator api s q = Inl e \<Longrightarrow>
     snd (analyze_query api now s q) = s \<and>
     get_session_history (snd (analyze_query api now s q)) = get_session_history s"
  by (simp add: analyze_query_def)

text \<open>After one recorded query, a failing one leaves that single entry.\<close>

theorem analyze_query_exception_leaves_history_witness:
  "is_initialized
     (snd (analyze_query demo_api (Finite 1) demo_system ''Get the current stock price for AAPL'')) \<and>
   get_session_history
     (snd (analyze_query demo_api (Finite 2)
        (snd (analyze_query demo_api (Finite 1) demo_system ''Get the current stock price for AAPL''))
        [])) =
     [\<lparr>query = ''Get the current stock price for AAPL'',
       result = [''success'' \<mapsto> PBool True, ''output'' \<mapsto> PStr ''AAPL: 189.84'',
                 ''agent'' \<mapsto> PStr ''junior''],
       timestamp = Finite 1\<rparr>]"
proof -
  let ?s = "snd (analyze_query demo_api (Finite 1) demo_system ''Get the current stock price for AAPL'')"
  have s: "?s = demo_system\<lparr>session_history :=
      [\<lparr>query = ''Get the current stock price for AAPL'',
        result = [''success'' \<mapsto> PBool True, ''output'' \<mapsto> PStr ''AAPL: 189.84'',
                  ''agent'' \<mapsto> PStr ''junior''],
        timestamp = Finite 1\<rparr>]\<rparr>"
    by (simp add: analyze_query_def call_orchestrator_def demo_system_def demo_api_def
        demo_orchestrate_def)
  have i: "is_initialized ?s"
    unfolding s by (simp add: demo_system_def)
  have c: "call_orchestrator demo_api ?s [] = Inl (Exception ''RuntimeError'' ''empty prompt'')"
    unfolding s by (simp add: call_orchestrator_def demo_system_def demo_api_def demo_orchestrate_def)
  from analyze_query_exception_leaves_history [OF i c, of "Finite 2"] i
  show ?thesis
    unfolding s by (simp add: get_session_history_def)
qed

end
